theory Spec2Isabelle
  imports Complex_Main "HOL-Library.Sublist"
begin

section \<open>Progressive capability gate\<close>

text \<open>
  The upload page (\<^verbatim>\<open>UploadPage\<close>, \<^verbatim>\<open>getCapabilities\<close>) and the upload widget
  (\<^verbatim>\<open>OHLCUploadWidget.jsx\<close>, \<^verbatim>\<open>getCapabilities\<close>) each derive a capability object from
  a data-point count. The page reads \<^verbatim>\<open>analytics?.data_points || 0\<close>; the widget sums
  the values of \<^verbatim>\<open>analytics.tick_count\<close>. JavaScript numbers that count points are
  modelled as \<^typ>\<open>int\<close>; a missing object or field is \<^const>\<open>None\<close>.
\<close>

record page_entry =
  enabled :: bool
  required :: int
  name :: string
  icon :: string
  description :: string

record 'e capability_object =
  basicPriceTracking :: 'e
  volumeAnalysis :: 'e
  zScoreCalculation :: 'e
  volatilityMetrics :: 'e
  correlationAnalysis :: 'e
  spreadTrading :: 'e
  hedgeRatioCalc :: 'e
  adfStationarity :: 'e
  fullHistoricalCharts :: 'e

record page_analytics =
  data_points :: "int option"

text \<open>\<^verbatim>\<open>const dataPoints = analytics?.data_points || 0\<close>: a missing object, a missing
  field and the falsy number 0 all give 0.\<close>

definition dataPoints_UploadPage :: "page_analytics option \<Rightarrow> int" where
  "dataPoints_UploadPage analytics =
     (case analytics of
        None \<Rightarrow> 0
      | Some a \<Rightarrow> (case data_points a of None \<Rightarrow> 0 | Some n \<Rightarrow> if n = 0 then 0 else n))"

text \<open>The icons are emoji; they are written as their UTF-8 bytes.\<close>

definition capabilities_UploadPage :: "int \<Rightarrow> page_entry capability_object" where
  "capabilities_UploadPage dataPoints =
     \<lparr> basicPriceTracking =
         \<lparr> enabled = (dataPoints \<ge> 1), required = 1, name = ''Price Tracking'',
           icon = [CHR 0xF0, CHR 0x9F, CHR 0x93, CHR 0x8A],
           description = ''Real-time price monitoring'' \<rparr>,
       volumeAnalysis =
         \<lparr> enabled = (dataPoints \<ge> 10), required = 10, name = ''Volume Analysis'',
           icon = [CHR 0xF0, CHR 0x9F, CHR 0x93, CHR 0x88],
           description = ''Trading volume metrics'' \<rparr>,
       zScoreCalculation =
         \<lparr> enabled = (dataPoints \<ge> 20), required = 20, name = ''Z-Score Calculation'',
           icon = [CHR 0xF0, CHR 0x9F, CHR 0x93, CHR 0x89],
           description = ''Statistical price deviation'' \<rparr>,
       volatilityMetrics =
         \<lparr> enabled = (dataPoints \<ge> 50), required = 50, name = ''Volatility Metrics'',
           icon = [CHR 0xE2, CHR 0x9A, CHR 0xA1],
           description = ''Price volatility analysis'' \<rparr>,
       correlationAnalysis =
         \<lparr> enabled = (dataPoints \<ge> 100), required = 100, name = ''Correlation Analysis'',
           icon = [CHR 0xF0, CHR 0x9F, CHR 0x94, CHR 0x97],
           description = ''Multi-asset correlation'' \<rparr>,
       spreadTrading =
         \<lparr> enabled = (dataPoints \<ge> 100), required = 100, name = ''Spread Trading'',
           icon = [CHR 0xE2, CHR 0x86, CHR 0x94, CHR 0xEF, CHR 0xB8, CHR 0x8F],
           description = ''Pair spread calculations'' \<rparr>,
       hedgeRatioCalc =
         \<lparr> enabled = (dataPoints \<ge> 150), required = 150, name = ''Hedge Ratio'',
           icon = [CHR 0xE2, CHR 0x9A, CHR 0x96, CHR 0xEF, CHR 0xB8, CHR 0x8F],
           description = ''Optimal hedge ratios'' \<rparr>,
       adfStationarity =
         \<lparr> enabled = (dataPoints \<ge> 200), required = 200, name = ''ADF Test (Stationarity)'',
           icon = [CHR 0xF0, CHR 0x9F, CHR 0x94, CHR 0xAC],
           description = ''Mean reversion testing'' \<rparr>,
       fullHistoricalCharts =
         \<lparr> enabled = (dataPoints \<ge> 200), required = 200, name = ''Full Historical Charts'',
           icon = [CHR 0xF0, CHR 0x9F, CHR 0x93, CHR 0x8A],
           description = ''Complete chart history'' \<rparr> \<rparr>"

definition getCapabilities_UploadPage ::
    "page_analytics option \<Rightarrow> page_entry capability_object" where
  "getCapabilities_UploadPage analytics =
     capabilities_UploadPage (dataPoints_UploadPage analytics)"

text \<open>The widget's entries have no icon and no description.\<close>

record widget_entry =
  w_enabled :: bool
  w_required :: int
  w_name :: string

record widget_analytics =
  tick_count :: "(string \<times> int) list option"

text \<open>\<^verbatim>\<open>analytics?.tick_count ? Object.values(analytics.tick_count).reduce((a, b) => a + b, 0) : 0\<close>:
  the object of per-symbol counts is an association list in key order, and the
  reduction is a left fold from 0.\<close>

definition dataPoints_OHLCUploadWidget :: "widget_analytics option \<Rightarrow> int" where
  "dataPoints_OHLCUploadWidget analytics =
     (case analytics of
        None \<Rightarrow> 0
      | Some a \<Rightarrow>
          (case tick_count a of
             None \<Rightarrow> 0
           | Some tc \<Rightarrow> foldl (\<lambda>a b. a + b) 0 (map snd tc)))"

definition capabilities_OHLCUploadWidget :: "int \<Rightarrow> widget_entry capability_object" where
  "capabilities_OHLCUploadWidget dataPoints =
     \<lparr> basicPriceTracking =
         \<lparr> w_enabled = (dataPoints \<ge> 1), w_required = 1, w_name = ''Price Tracking'' \<rparr>,
       volumeAnalysis =
         \<lparr> w_enabled = (dataPoints \<ge> 10), w_required = 10, w_name = ''Volume Analysis'' \<rparr>,
       zScoreCalculation =
         \<lparr> w_enabled = (dataPoints \<ge> 20), w_required = 20, w_name = ''Z-Score Calculation'' \<rparr>,
       volatilityMetrics =
         \<lparr> w_enabled = (dataPoints \<ge> 50), w_required = 50, w_name = ''Volatility Metrics'' \<rparr>,
       correlationAnalysis =
         \<lparr> w_enabled = (dataPoints \<ge> 100), w_required = 100,
           w_name = ''Correlation Analysis'' \<rparr>,
       spreadTrading =
         \<lparr> w_enabled = (dataPoints \<ge> 100), w_required = 100, w_name = ''Spread Trading'' \<rparr>,
       hedgeRatioCalc =
         \<lparr> w_enabled = (dataPoints \<ge> 150), w_required = 150, w_name = ''Hedge Ratio'' \<rparr>,
       adfStationarity =
         \<lparr> w_enabled = (dataPoints \<ge> 200), w_required = 200,
           w_name = ''ADF Test (Stationarity)'' \<rparr>,
       fullHistoricalCharts =
         \<lparr> w_enabled = (dataPoints \<ge> 200), w_required = 200,
           w_name = ''Full Historical Charts'' \<rparr> \<rparr>"

definition getCapabilities_OHLCUploadWidget ::
    "widget_analytics option \<Rightarrow> widget_entry capability_object" where
  "getCapabilities_OHLCUploadWidget analytics =
     capabilities_OHLCUploadWidget (dataPoints_OHLCUploadWidget analytics)"


section \<open>JSON values of the analytics stream\<close>

text \<open>
  Every stream message is the result of \<^verbatim>\<open>JSON.parse(event.data)\<close>. An object is a list of
  members in insertion order, with distinct keys. The type \<open>'n\<close> is the type of JSON
  numbers; how a number prints (\<^verbatim>\<open>Number.prototype.toString\<close>) is a parameter of
  \<open>stringify\<close>. A missing field, and JavaScript's \<^verbatim>\<open>undefined\<close>, is \<^const>\<open>None\<close>.
\<close>

datatype 'n json =
    JNull
  | JBool bool
  | JNum 'n
  | JStr string
  | JArr "'n json list"
  | JObj "(string \<times> 'n json) list"

datatype js_error = TypeError

definition digit_char :: "nat \<Rightarrow> char" where
  "digit_char d = ''0123456789'' ! d"

fun digits :: "nat \<Rightarrow> string" where
  "digits n = (if n < 10 then [digit_char n] else digits (n div 10) @ [digit_char (n mod 10)])"

declare digits.simps [simp del]

definition show_int :: "int \<Rightarrow> string" where
  "show_int i = (if i < 0 then CHR ''-'' # digits (nat (- i)) else digits (nat i))"

text \<open>\<^verbatim>\<open>JSON.stringify\<close>'s quoting of a string: the quotation mark and the reverse solidus
  are escaped; the symbols and keys of the stream are plain ASCII.\<close>

definition quote :: "string \<Rightarrow> string" where
  "quote s =
     [CHR 0x22] @
     concat (map (\<lambda>c. if c = CHR 0x22 \<or> c = CHR 0x5C then [CHR 0x5C, c] else [c]) s) @
     [CHR 0x22]"

fun join_comma :: "string list \<Rightarrow> string" where
  "join_comma [] = []"
| "join_comma [x] = x"
| "join_comma (x # y # ys) = x @ '','' @ join_comma (y # ys)"

fun stringify :: "('n \<Rightarrow> string) \<Rightarrow> 'n json \<Rightarrow> string" where
  "stringify shw JNull = ''null''"
| "stringify shw (JBool b) = (if b then ''true'' else ''false'')"
| "stringify shw (JNum n) = shw n"
| "stringify shw (JStr s) = quote s"
| "stringify shw (JArr xs) = ''['' @ join_comma (map (stringify shw) xs) @ '']''"
| "stringify shw (JObj kvs) =
     ''{'' @ join_comma (map (\<lambda>(k, v). quote k @ '':'' @ stringify shw v) kvs) @ ''}''"

text \<open>\<^verbatim>\<open>JSON.stringify(x)\<close> of a possibly undefined \<open>x\<close>: undefined gives undefined.\<close>

definition stringify_field :: "('n \<Rightarrow> string) \<Rightarrow> 'n json option \<Rightarrow> string option" where
  "stringify_field shw x = map_option (stringify shw) x"

text \<open>\<^verbatim>\<open>obj?.[key]\<close>: undefined and null short-circuit to undefined; an object gives its
  member; any other parsed JSON value has no such property.\<close>

definition optional_member :: "'n json option \<Rightarrow> string \<Rightarrow> 'n json option" where
  "optional_member obj key =
     (case obj of
        Some (JObj kvs) \<Rightarrow> map_of kvs key
      | _ \<Rightarrow> None)"

text \<open>The snapshot message, with the fields the stream documents.\<close>

record 'n snapshot =
  s_price :: "'n json option"
  s_zscore :: "'n json option"
  s_spread :: "'n json option"
  s_correlation :: "'n json option"
  s_hedge_ratio :: "'n json option"
  s_adf_test :: "'n json option"
  s_timestamp :: "'n json option"

section \<open>Dashboard: suppressing unchanged snapshots\<close>

text \<open>
  \<^verbatim>\<open>updateAnalytics\<close> of \<^verbatim>\<open>TradingDashboard.jsx\<close>, the function given to \<^verbatim>\<open>setAnalytics\<close>.
  The stored state and the incoming message are \<^const>\<open>None\<close> when they are \<^verbatim>\<open>null\<close>; with
  a stored snapshot, reading \<^verbatim>\<open>newAnalytics.price\<close> of \<^verbatim>\<open>null\<close> raises a TypeError.
\<close>

definition updateAnalytics ::
    "('n \<Rightarrow> string) \<Rightarrow> 'n snapshot option \<Rightarrow> 'n snapshot option
      \<Rightarrow> js_error + 'n snapshot option" where
  "updateAnalytics shw prev newAnalytics =
     (case prev of
        None \<Rightarrow> Inr newAnalytics
      | Some p \<Rightarrow>
          (case newAnalytics of
             None \<Rightarrow> Inl TypeError
           | Some n \<Rightarrow>
               (let priceChanged = (stringify_field shw (s_price p) \<noteq> stringify_field shw (s_price n));
                    zscoreChanged = (stringify_field shw (s_zscore p) \<noteq> stringify_field shw (s_zscore n));
                    spreadChanged = (stringify_field shw (s_spread p) \<noteq> stringify_field shw (s_spread n))
                in if priceChanged \<or> zscoreChanged \<or> spreadChanged
                   then Inr newAnalytics
                   else Inr prev)))"


section \<open>Dashboard: rolling z-score and spread history\<close>

text \<open>
  The two state updaters inside \<^verbatim>\<open>ws.onmessage\<close> of \<^verbatim>\<open>TradingDashboard.jsx\<close>. A stored
  point is \<^verbatim>\<open>{ timestamp, zscore, time }\<close> (or \<^verbatim>\<open>spread\<close> for the spread history):
  \<open>hp_timestamp\<close> is the text \<^verbatim>\<open>new Date(data.timestamp).toLocaleTimeString()\<close>,
  \<open>hp_value\<close> the value read from the message, \<open>hp_time\<close> the clock reading
  \<^verbatim>\<open>Date.now()\<close>. The formatter and the clock reading are parameters.
\<close>

record 'n history_point =
  hp_timestamp :: string
  hp_value :: "'n json"
  hp_time :: int

definition MAX_HISTORY_POINTS :: nat where
  "MAX_HISTORY_POINTS = 100"

text \<open>\<^verbatim>\<open>xs.slice(-n)\<close> for a positive \<open>n\<close>: the last \<open>n\<close> elements, or all of them.\<close>

definition slice_last :: "nat \<Rightarrow> 'a list \<Rightarrow> 'a list" where
  "slice_last n xs = drop (length xs - n) xs"

text \<open>The body both updaters share, from \<^verbatim>\<open>const lastPoint = prev[prev.length - 1]\<close> on.\<close>

definition pushPoint ::
    "string \<Rightarrow> 'n json \<Rightarrow> int \<Rightarrow> 'n history_point list \<Rightarrow> 'n history_point list" where
  "pushPoint timestamp v now prev =
     (if prev \<noteq> [] \<and> hp_timestamp (last prev) = timestamp then prev
      else
        (let newPoint = \<lparr> hp_timestamp = timestamp, hp_value = v, hp_time = now \<rparr>;
             updated = prev @ [newPoint]
         in if length updated > MAX_HISTORY_POINTS
            then slice_last MAX_HISTORY_POINTS updated
            else updated))"

definition zscoreHistory_onmessage ::
    "('n json option \<Rightarrow> string) \<Rightarrow> string \<Rightarrow> int \<Rightarrow> 'n snapshot
      \<Rightarrow> 'n history_point list \<Rightarrow> 'n history_point list" where
  "zscoreHistory_onmessage toLocaleTimeString selectedSymbol1 now data prev =
     (if selectedSymbol1 \<noteq> [] then
        (case optional_member (s_zscore data) selectedSymbol1 of
           None \<Rightarrow> prev
         | Some zscore \<Rightarrow> pushPoint (toLocaleTimeString (s_timestamp data)) zscore now prev)
      else prev)"

definition spreadHistory_onmessage ::
    "('n json option \<Rightarrow> string) \<Rightarrow> string \<Rightarrow> string \<Rightarrow> int \<Rightarrow> 'n snapshot
      \<Rightarrow> 'n history_point list \<Rightarrow> 'n history_point list" where
  "spreadHistory_onmessage toLocaleTimeString selectedSymbol1 selectedSymbol2 now data prev =
     (let pairKey = selectedSymbol1 @ ''_'' @ selectedSymbol2
      in if selectedSymbol1 \<noteq> [] \<and> selectedSymbol2 \<noteq> [] then
           (case optional_member (s_spread data) pairKey of
              None \<Rightarrow> prev
            | Some spread \<Rightarrow> pushPoint (toLocaleTimeString (s_timestamp data)) spread now prev)
         else prev)"

text \<open>A sequence of messages, each with the clock reading at its arrival, applied to
  the z-score history from the left.\<close>

definition zscoreHistory_run ::
    "('n json option \<Rightarrow> string) \<Rightarrow> string \<Rightarrow> (int \<times> 'n snapshot) list
      \<Rightarrow> 'n history_point list \<Rightarrow> 'n history_point list" where
  "zscoreHistory_run toLocaleTimeString selectedSymbol1 msgs prev =
     foldl (\<lambda>h (now, data). zscoreHistory_onmessage toLocaleTimeString selectedSymbol1 now data h)
       prev msgs"

text \<open>One formatter for concrete runs: on a number of milliseconds since the epoch, the
  time of day in UTC on a 24-hour clock, as \<^verbatim>\<open>toLocaleTimeString('en-GB', {timeZone: 'UTC'})\<close>
  prints it. The concrete runs below give it numbers only.\<close>

definition two_digits :: "nat \<Rightarrow> string" where
  "two_digits n = [digit_char (n div 10), digit_char (n mod 10)]"

definition utcTimeString :: "int json option \<Rightarrow> string" where
  "utcTimeString t =
     (case t of
        Some (JNum ms) \<Rightarrow>
          (let s = ms div 1000
           in two_digits (nat ((s div 3600) mod 24)) @ '':'' @
              two_digits (nat ((s div 60) mod 60)) @ '':'' @
              two_digits (nat (s mod 60)))
      | _ \<Rightarrow> ''Invalid Date'')"

section \<open>Alerts manager\<close>

text \<open>
  \<^verbatim>\<open>useAlertsManager\<close> (the hook the dashboard imports) and \<^verbatim>\<open>AlertsManager.jsx\<close> hold the
  alert rules and the triggered-alert history as React state. An id is a JSON number or
  a JSON string, and \<^verbatim>\<open>!==\<close> compares without coercion.
\<close>

datatype js_id = IdNum int | IdStr string

record alert_rule =
  a_id :: js_id
  a_name :: string
  a_symbol :: string
  a_condition :: string
  a_value :: real

record 't manager_state =
  alerts :: "alert_rule list"
  triggeredAlerts :: "'t list"
  loading :: bool
  error :: "string option"

text \<open>What \<^verbatim>\<open>fetch\<close> gave: a rejection with its message, or a response. The body of a
  response either does not parse as JSON (\<^verbatim>\<open>response.json()\<close> rejects, with the given
  message) or parses; \<open>JsonBody e\<close> carries the body's \<^verbatim>\<open>error\<close> member when it is truthy.\<close>

datatype response_body = NotJson string | JsonBody "string option"

record http_response =
  r_ok :: bool
  r_status :: nat
  r_statusText :: string
  r_body :: response_body

datatype fetch_result = NetworkError string | Response http_response

text \<open>\<^verbatim>\<open>errorData.error || `HTTP ${response.status}: ${response.statusText}`\<close>, where
  \<open>errorData\<close> is the empty object when the body does not parse.\<close>

definition error_message :: "http_response \<Rightarrow> string" where
  "error_message r =
     (case r_body r of
        JsonBody (Some e) \<Rightarrow> e
      | _ \<Rightarrow> ''HTTP '' @ digits (r_status r) @ '': '' @ r_statusText r)"

text \<open>The part of \<^verbatim>\<open>fetchAlerts\<close> that runs before its first \<^verbatim>\<open>await\<close>. Its completion is
  a later transition that replaces \<open>alerts\<close> by the list the server returns.\<close>

definition fetchAlerts_begin :: "'t manager_state \<Rightarrow> 't manager_state" where
  "fetchAlerts_begin st = st\<lparr> loading := True, error := None \<rparr>"

text \<open>\<^verbatim>\<open>deleteAlert\<close> of the hook. The result is the state after the function's own
  updates and what the promise settles to: \<open>Inl\<close> the message of the rethrown error.\<close>

definition deleteAlert ::
    "js_id \<Rightarrow> fetch_result \<Rightarrow> 't manager_state \<Rightarrow> 't manager_state \<times> (string + unit)" where
  "deleteAlert alertId res st =
     (let st1 = st\<lparr> error := None \<rparr>;
          failed = (\<lambda>m. (fetchAlerts_begin (st1\<lparr> error := Some (''Failed to delete alert: '' @ m) \<rparr>),
                         Inl m))
      in case res of
           NetworkError m \<Rightarrow> failed m
         | Response r \<Rightarrow>
             if \<not> r_ok r then failed (error_message r)
             else (st1\<lparr> alerts := filter (\<lambda>alert. a_id alert \<noteq> alertId) (alerts st1) \<rparr>, Inr ()))"

text \<open>\<^verbatim>\<open>deleteAlert\<close> of \<^verbatim>\<open>AlertsManager.jsx\<close>: it reads the JSON body of a good response
  before it updates the list, and it does not rethrow.\<close>

definition deleteAlert_AlertsManager ::
    "js_id \<Rightarrow> fetch_result \<Rightarrow> 't manager_state \<Rightarrow> 't manager_state" where
  "deleteAlert_AlertsManager alertId res st =
     (let st1 = st\<lparr> error := None \<rparr>;
          failed = (\<lambda>m. fetchAlerts_begin (st1\<lparr> error := Some (''Failed to delete alert: '' @ m) \<rparr>))
      in case res of
           NetworkError m \<Rightarrow> failed m
         | Response r \<Rightarrow>
             if \<not> r_ok r then failed (error_message r)
             else (case r_body r of
                     NotJson m \<Rightarrow> failed m
                   | JsonBody e \<Rightarrow>
                       st1\<lparr> alerts := filter (\<lambda>alert. a_id alert \<noteq> alertId) (alerts st1) \<rparr>))"

text \<open>The hook takes a delete as successful when \<^verbatim>\<open>response.ok\<close> holds;
  \<^verbatim>\<open>AlertsManager.jsx\<close> also needs the body to parse.\<close>

definition response_ok :: "fetch_result \<Rightarrow> bool" where
  "response_ok res = (case res of NetworkError m \<Rightarrow> False | Response r \<Rightarrow> r_ok r)"

definition body_parses :: "fetch_result \<Rightarrow> bool" where
  "body_parses res =
     (case res of
        NetworkError m \<Rightarrow> False
      | Response r \<Rightarrow> (case r_body r of NotJson m \<Rightarrow> False | JsonBody e \<Rightarrow> True))"














section \<open>Alert creation form\<close>

text \<open>
  \<^verbatim>\<open>AlertModal.jsx\<close>. The form state is \<^verbatim>\<open>formData\<close>; it changes when the modal opens and
  when an input changes. The condition is a \<^verbatim>\<open><select>\<close> with four options, so its change
  event carries the value of one of them. \<^verbatim>\<open>parseFloat\<close> is a parameter: \<^const>\<open>None\<close> is
  NaN, and \<open>'n\<close> is the type of the numbers it returns otherwise.
\<close>

record formData =
  fd_name :: string
  fd_condition :: string
  fd_symbol :: string
  fd_value :: string

datatype condition_option = Zscore_above | Zscore_below | Price_above | Price_below

fun option_value :: "condition_option \<Rightarrow> string" where
  "option_value Zscore_above = ''zscore_above''"
| "option_value Zscore_below = ''zscore_below''"
| "option_value Price_above = ''price_above''"
| "option_value Price_below = ''price_below''"

definition toUpperCase :: "string \<Rightarrow> string" where
  "toUpperCase s =
     map (\<lambda>c. let n = (of_char c :: nat) in if 97 \<le> n \<and> n \<le> 122 then char_of (n - 32) else c) s"

definition initial_formData :: formData where
  "initial_formData =
     \<lparr> fd_name = [], fd_condition = ''zscore_above'', fd_symbol = [], fd_value = ''2.0'' \<rparr>"

datatype form_event =
    Opened string
  | NameChanged string
  | SymbolChanged string
  | ConditionChanged condition_option
  | ValueChanged string

text \<open>\<open>Opened sym\<close> is the effect that runs when \<^verbatim>\<open>isOpen\<close> becomes true, with
  \<^verbatim>\<open>selectedSymbol1 = sym\<close> (the empty string when none is selected).\<close>

fun form_step :: "formData \<Rightarrow> form_event \<Rightarrow> formData" where
  "form_step fd (Opened selectedSymbol1) =
     \<lparr> fd_name = (if selectedSymbol1 \<noteq> [] then selectedSymbol1 else ''Symbol'') @ '' Alert'',
       fd_condition = ''zscore_above'',
       fd_symbol = (if selectedSymbol1 \<noteq> [] then selectedSymbol1 else []),
       fd_value = ''2.0'' \<rparr>"
| "form_step fd (NameChanged v) = fd\<lparr> fd_name := v \<rparr>"
| "form_step fd (SymbolChanged v) = fd\<lparr> fd_symbol := toUpperCase v \<rparr>"
| "form_step fd (ConditionChanged opt) = fd\<lparr> fd_condition := option_value opt \<rparr>"
| "form_step fd (ValueChanged v) = fd\<lparr> fd_value := v \<rparr>"

definition form_after :: "form_event list \<Rightarrow> formData" where
  "form_after events = foldl form_step initial_formData events"

text \<open>The body of the POST request: \<^verbatim>\<open>{ ...formData, value }\<close>.\<close>

record 'n alert_request =
  rq_name :: string
  rq_condition :: string
  rq_symbol :: string
  rq_value :: 'n

text \<open>\<^verbatim>\<open>handleSubmit\<close> up to the \<^verbatim>\<open>fetch\<close>: either it shows a message and returns, or it
  sends the request. The messages start with the cross mark emoji.\<close>

datatype 'n submit_result = Rejected string | Sent "'n alert_request"

definition handleSubmit :: "(string \<Rightarrow> 'n option) \<Rightarrow> formData \<Rightarrow> 'n submit_result" where
  "handleSubmit parseFloat fd =
     (case parseFloat (fd_value fd) of
        None \<Rightarrow> Rejected ([CHR 0xE2, CHR 0x9D, CHR 0x8C] @ '' Invalid threshold value'')
      | Some v \<Rightarrow>
          if fd_symbol fd = [] then
            Rejected ([CHR 0xE2, CHR 0x9D, CHR 0x8C] @ '' Please enter a symbol'')
          else
            Sent \<lparr> rq_name = fd_name fd, rq_condition = fd_condition fd,
                   rq_symbol = fd_symbol fd, rq_value = v \<rparr>)"

definition conditions :: "string set" where
  "conditions = {''zscore_above'', ''zscore_below'', ''price_above'', ''price_below''}"

section \<open>Rolling z-score\<close>

text \<open>
  The statistics engine runs in the backend, whose code is not among the sources; only
  the frontend that displays its results is.
\<close>

record tick =
  t_symbol :: string
  t_price :: real
  t_volume :: real
  t_timestamp :: int

text \<open>Modelled from the spec: the rolling statistics engine is missing. The mean of a
  series of prices.\<close>

definition mean :: "real list \<Rightarrow> real" where
  "mean xs = sum_list xs / real (length xs)"

text \<open>Modelled from the spec: the rolling statistics engine is missing. The sample
  standard deviation of a series of prices.\<close>

definition std :: "real list \<Rightarrow> real" where
  "std xs = sqrt (sum_list (map (\<lambda>x. (x - mean xs)\<^sup>2) xs) / (real (length xs) - 1))"

definition MIN_WINDOW :: nat where
  "MIN_WINDOW = 20"

text \<open>Modelled from the spec: the rolling statistics engine is missing. The window the
  latest tick of a symbol buffer (oldest tick first) is scored against: the prices of
  the ticks before it. The spec's scenario fixes this: a buffer seeded with 25 ticks of
  mean 100 and standard deviation 5, followed by a tick at 115, has z-score 3, which is
  \<open>(115 - 100) / 5\<close> with the mean and the deviation of the 25 seeded ticks.\<close>

definition window :: "tick list \<Rightarrow> real list" where
  "window buffer = map t_price (butlast buffer)"

text \<open>Modelled from the spec: the rolling statistics engine is missing. The z-score of a
  symbol buffer: undefined while the buffer holds fewer than 20 ticks or when the
  standard deviation is 0, else \<open>(latest_price - mean) / std\<close> over the window.\<close>

definition zscore :: "tick list \<Rightarrow> real option" where
  "zscore buffer =
     (let tick_count = length buffer
      in if tick_count < MIN_WINDOW then None
         else if std (window buffer) = 0 then None
         else Some ((t_price (last buffer) - mean (window buffer)) / std (window buffer)))"

section \<open>Dashboard: chart data\<close>

text \<open>
  \<^verbatim>\<open>formatChartData\<close> of \<^verbatim>\<open>TradingDashboard.jsx\<close>. Its argument is whatever
  \<^verbatim>\<open>historicalData[symbol]\<close> holds: \<open>NotArray\<close> is a falsy value or anything that is not an
  array. An element of the array is \<^verbatim>\<open>null\<close> (\<open>Nullish\<close>), on which the read of
  \<^verbatim>\<open>item.timestamp\<close> raises a TypeError, or a value with properties. \<open>i_timestamp\<close> is the
  property as a number (\<^const>\<open>None\<close> when it is missing or not a number, so that the
  date is invalid); \<open>i_price\<close> and \<open>i_volume\<close> are raw values given to \<^verbatim>\<open>parseFloat\<close>,
  which is a parameter (\<^const>\<open>None\<close> is NaN), as are the two date formatters.
\<close>

record 'r price_item =
  i_timestamp :: "real option"
  i_price :: 'r
  i_volume :: 'r

datatype 'r js_element = Nullish | Obj "'r price_item"

datatype 'r chart_input = NotArray | Array "'r js_element list"

record chart_point =
  cp_timestamp :: string
  cp_fullTimestamp :: string
  cp_price :: real
  cp_volume :: real
  cp_close :: real
  cp_high :: real
  cp_low :: real
  cp_open :: real
  cp_originalIndex :: nat

text \<open>\<^verbatim>\<open>parseFloat(x) || 0\<close>: NaN and 0 are falsy.\<close>

definition parse_or_zero :: "('r \<Rightarrow> real option) \<Rightarrow> 'r \<Rightarrow> real" where
  "parse_or_zero parseFloat x = (case parseFloat x of None \<Rightarrow> 0 | Some v \<Rightarrow> if v = 0 then 0 else v)"

text \<open>The object the callback of \<^verbatim>\<open>map\<close> builds from an item with properties.\<close>

definition format_object ::
    "('r \<Rightarrow> real option) \<Rightarrow> (real option \<Rightarrow> string) \<Rightarrow> (real option \<Rightarrow> string)
      \<Rightarrow> 'r price_item \<Rightarrow> nat \<Rightarrow> chart_point" where
  "format_object parseFloat toLocaleTimeString toLocaleString it index =
     (let ts = map_option (\<lambda>t. if t > 10 ^ 12 then t else t * 1000) (i_timestamp it)
      in \<lparr> cp_timestamp = toLocaleTimeString ts,
           cp_fullTimestamp = toLocaleString ts,
           cp_price = parse_or_zero parseFloat (i_price it),
           cp_volume = parse_or_zero parseFloat (i_volume it),
           cp_close = parse_or_zero parseFloat (i_price it),
           cp_high = parse_or_zero parseFloat (i_price it),
           cp_low = parse_or_zero parseFloat (i_price it),
           cp_open = parse_or_zero parseFloat (i_price it),
           cp_originalIndex = index \<rparr>)"

text \<open>The callback of \<^verbatim>\<open>map\<close>: the read of \<^verbatim>\<open>item.timestamp\<close> comes first.\<close>

definition format_item ::
    "('r \<Rightarrow> real option) \<Rightarrow> (real option \<Rightarrow> string) \<Rightarrow> (real option \<Rightarrow> string)
      \<Rightarrow> 'r js_element \<Rightarrow> nat \<Rightarrow> js_error + chart_point" where
  "format_item parseFloat toLocaleTimeString toLocaleString item index =
     (case item of
        Nullish \<Rightarrow> Inl TypeError
      | Obj it \<Rightarrow> Inr (format_object parseFloat toLocaleTimeString toLocaleString it index))"

text \<open>\<^verbatim>\<open>data.map(callback)\<close> from index \<open>i\<close> on: the first exception ends it.\<close>

fun map_items ::
    "('r js_element \<Rightarrow> nat \<Rightarrow> js_error + chart_point) \<Rightarrow> nat \<Rightarrow> 'r js_element list
      \<Rightarrow> js_error + chart_point list" where
  "map_items f i [] = Inr []"
| "map_items f i (x # xs) =
     (case f x i of
        Inl e \<Rightarrow> Inl e
      | Inr p \<Rightarrow> (case map_items f (Suc i) xs of Inl e \<Rightarrow> Inl e | Inr ps \<Rightarrow> Inr (p # ps)))"

definition formatChartData ::
    "('r \<Rightarrow> real option) \<Rightarrow> (real option \<Rightarrow> string) \<Rightarrow> (real option \<Rightarrow> string)
      \<Rightarrow> 'r chart_input \<Rightarrow> js_error + chart_point list" where
  "formatChartData parseFloat toLocaleTimeString toLocaleString data =
     (case data of
        NotArray \<Rightarrow> Inr []
      | Array items \<Rightarrow>
          if length items = 0 then Inr []
          else
            (case map_items (format_item parseFloat toLocaleTimeString toLocaleString) 0 items of
               Inl e \<Rightarrow> Inl e
             | Inr mapped \<Rightarrow> Inr (slice_last 50 (filter (\<lambda>item. cp_price item > 0) mapped))))"

section \<open>Theorems: capability gate\<close>

lemma dataPoints_UploadPage_count: "dataPoints_UploadPage (Some \<lparr> data_points = Some n \<rparr>) = n"
  by (simp add: dataPoints_UploadPage_def)

lemma dataPoints_OHLCUploadWidget_sum:
  "dataPoints_OHLCUploadWidget (Some \<lparr> tick_count = Some tc \<rparr>) = sum_list (map snd tc)"
proof -
  have "foldl (\<lambda>a b. a + b) k xs = k + sum_list xs" for k :: int and xs
    by (induction xs arbitrary: k) simp_all
  then show ?thesis
    by (simp add: dataPoints_OHLCUploadWidget_def)
qed

text \<open>
  C1. The capability object is a function of the data-point count alone: the object
  \<^verbatim>\<open>getCapabilities\<close> returns is the one of the count it reads, on the upload page and in
  the widget, and for every count \<open>n\<close> price tracking is enabled iff \<open>n \<ge> 1\<close>, volume
  analysis iff \<open>n \<ge> 10\<close>, z-score calculation iff \<open>n \<ge> 20\<close>, volatility metrics iff
  \<open>n \<ge> 50\<close>, correlation analysis and spread trading iff \<open>n \<ge> 100\<close>, hedge ratio iff
  \<open>n \<ge> 150\<close>, ADF stationarity (and the full historical charts) iff \<open>n \<ge> 200\<close>, each
  entry's \<open>required\<close> being that threshold.
\<close>

theorem capability_gate_thresholds:
  fixes n :: int
  shows "getCapabilities_UploadPage a = capabilities_UploadPage (dataPoints_UploadPage a)
    \<and> getCapabilities_OHLCUploadWidget w = capabilities_OHLCUploadWidget (dataPoints_OHLCUploadWidget w)
    \<and> enabled (basicPriceTracking (capabilities_UploadPage n)) = (n \<ge> 1)
    \<and> required (basicPriceTracking (capabilities_UploadPage n)) = 1
    \<and> enabled (volumeAnalysis (capabilities_UploadPage n)) = (n \<ge> 10)
    \<and> required (volumeAnalysis (capabilities_UploadPage n)) = 10
    \<and> enabled (zScoreCalculation (capabilities_UploadPage n)) = (n \<ge> 20)
    \<and> required (zScoreCalculation (capabilities_UploadPage n)) = 20
    \<and> enabled (volatilityMetrics (capabilities_UploadPage n)) = (n \<ge> 50)
    \<and> required (volatilityMetrics (capabilities_UploadPage n)) = 50
    \<and> enabled (correlationAnalysis (capabilities_UploadPage n)) = (n \<ge> 100)
    \<and> required (correlationAnalysis (capabilities_UploadPage n)) = 100
    \<and> enabled (spreadTrading (capabilities_UploadPage n)) = (n \<ge> 100)
    \<and> required (spreadTrading (capabilities_UploadPage n)) = 100
    \<and> enabled (hedgeRatioCalc (capabilities_UploadPage n)) = (n \<ge> 150)
    \<and> required (hedgeRatioCalc (capabilities_UploadPage n)) = 150
    \<and> enabled (adfStationarity (capabilities_UploadPage n)) = (n \<ge> 200)
    \<and> required (adfStationarity (capabilities_UploadPage n)) = 200
    \<and> enabled (fullHistoricalCharts (capabilities_UploadPage n)) = (n \<ge> 200)
    \<and> required (fullHistoricalCharts (capabilities_UploadPage n)) = 200
    \<and> w_enabled (basicPriceTracking (capabilities_OHLCUploadWidget n)) = (n \<ge> 1)
    \<and> w_required (basicPriceTracking (capabilities_OHLCUploadWidget n)) = 1
    \<and> w_enabled (volumeAnalysis (capabilities_OHLCUploadWidget n)) = (n \<ge> 10)
    \<and> w_required (volumeAnalysis (capabilities_OHLCUploadWidget n)) = 10
    \<and> w_enabled (zScoreCalculation (capabilities_OHLCUploadWidget n)) = (n \<ge> 20)
    \<and> w_required (zScoreCalculation (capabilities_OHLCUploadWidget n)) = 20
    \<and> w_enabled (volatilityMetrics (capabilities_OHLCUploadWidget n)) = (n \<ge> 50)
    \<and> w_required (volatilityMetrics (capabilities_OHLCUploadWidget n)) = 50
    \<and> w_enabled (correlationAnalysis (capabilities_OHLCUploadWidget n)) = (n \<ge> 100)
    \<and> w_required (correlationAnalysis (capabilities_OHLCUploadWidget n)) = 100
    \<and> w_enabled (spreadTrading (capabilities_OHLCUploadWidget n)) = (n \<ge> 100)
    \<and> w_required (spreadTrading (capabilities_OHLCUploadWidget n)) = 100
    \<and> w_enabled (hedgeRatioCalc (capabilities_OHLCUploadWidget n)) = (n \<ge> 150)
    \<and> w_required (hedgeRatioCalc (capabilities_OHLCUploadWidget n)) = 150
    \<and> w_enabled (adfStationarity (capabilities_OHLCUploadWidget n)) = (n \<ge> 200)
    \<and> w_required (adfStationarity (capabilities_OHLCUploadWidget n)) = 200
    \<and> w_enabled (fullHistoricalCharts (capabilities_OHLCUploadWidget n)) = (n \<ge> 200)
    \<and> w_required (fullHistoricalCharts (capabilities_OHLCUploadWidget n)) = 200"
  by (simp add: getCapabilities_UploadPage_def getCapabilities_OHLCUploadWidget_def
      capabilities_UploadPage_def capabilities_OHLCUploadWidget_def)

text \<open>
  C6. The two derivations agree: for every data-point count \<open>n\<close> the upload page and the
  upload widget give every feature the same enabled flag and the same required
  threshold (and the same name).
\<close>

theorem capability_derivations_agree:
  fixes n :: int
  shows "enabled (basicPriceTracking (capabilities_UploadPage n))
        = w_enabled (basicPriceTracking (capabilities_OHLCUploadWidget n))
    \<and> required (basicPriceTracking (capabilities_UploadPage n))
        = w_required (basicPriceTracking (capabilities_OHLCUploadWidget n))
    \<and> enabled (volumeAnalysis (capabilities_UploadPage n))
        = w_enabled (volumeAnalysis (capabilities_OHLCUploadWidget n))
    \<and> required (volumeAnalysis (capabilities_UploadPage n))
        = w_required (volumeAnalysis (capabilities_OHLCUploadWidget n))
    \<and> enabled (zScoreCalculation (capabilities_UploadPage n))
        = w_enabled (zScoreCalculation (capabilities_OHLCUploadWidget n))
    \<and> required (zScoreCalculation (capabilities_UploadPage n))
        = w_required (zScoreCalculation (capabilities_OHLCUploadWidget n))
    \<and> enabled (volatilityMetrics (capabilities_UploadPage n))
        = w_enabled (volatilityMetrics (capabilities_OHLCUploadWidget n))
    \<and> required (volatilityMetrics (capabilities_UploadPage n))
        = w_required (volatilityMetrics (capabilities_OHLCUploadWidget n))
    \<and> enabled (correlationAnalysis (capabilities_UploadPage n))
        = w_enabled (correlationAnalysis (capabilities_OHLCUploadWidget n))
    \<and> required (correlationAnalysis (capabilities_UploadPage n))
        = w_required (correlationAnalysis (capabilities_OHLCUploadWidget n))
    \<and> enabled (spreadTrading (capabilities_UploadPage n))
        = w_enabled (spreadTrading (capabilities_OHLCUploadWidget n))
    \<and> required (spreadTrading (capabilities_UploadPage n))
        = w_required (spreadTrading (capabilities_OHLCUploadWidget n))
    \<and> enabled (hedgeRatioCalc (capabilities_UploadPage n))
        = w_enabled (hedgeRatioCalc (capabilities_OHLCUploadWidget n))
    \<and> required (hedgeRatioCalc (capabilities_UploadPage n))
        = w_required (hedgeRatioCalc (capabilities_OHLCUploadWidget n))
    \<and> enabled (adfStationarity (capabilities_UploadPage n))
        = w_enabled (adfStationarity (capabilities_OHLCUploadWidget n))
    \<and> required (adfStationarity (capabilities_UploadPage n))
        = w_required (adfStationarity (capabilities_OHLCUploadWidget n))
    \<and> enabled (fullHistoricalCharts (capabilities_UploadPage n))
        = w_enabled (fullHistoricalCharts (capabilities_OHLCUploadWidget n))
    \<and> required (fullHistoricalCharts (capabilities_UploadPage n))
        = w_required (fullHistoricalCharts (capabilities_OHLCUploadWidget n))
    \<and> map name
          [basicPriceTracking (capabilities_UploadPage n), volumeAnalysis (capabilities_UploadPage n),
           zScoreCalculation (capabilities_UploadPage n), volatilityMetrics (capabilities_UploadPage n),
           correlationAnalysis (capabilities_UploadPage n), spreadTrading (capabilities_UploadPage n),
           hedgeRatioCalc (capabilities_UploadPage n), adfStationarity (capabilities_UploadPage n),
           fullHistoricalCharts (capabilities_UploadPage n)]
        = map w_name
          [basicPriceTracking (capabilities_OHLCUploadWidget n),
           volumeAnalysis (capabilities_OHLCUploadWidget n),
           zScoreCalculation (capabilities_OHLCUploadWidget n),
           volatilityMetrics (capabilities_OHLCUploadWidget n),
           correlationAnalysis (capabilities_OHLCUploadWidget n),
           spreadTrading (capabilities_OHLCUploadWidget n),
           hedgeRatioCalc (capabilities_OHLCUploadWidget n),
           adfStationarity (capabilities_OHLCUploadWidget n),
           fullHistoricalCharts (capabilities_OHLCUploadWidget n)]"
  by (simp add: capabilities_UploadPage_def capabilities_OHLCUploadWidget_def)

text \<open>
  C10. The gate is monotone in the count: for counts \<open>m \<le> n\<close> every feature enabled
  at \<open>m\<close> is enabled at \<open>n\<close>, on the page and in the widget; from 200 points on every
  feature is enabled, and at 0 points none is.
\<close>

theorem capability_gate_monotone:
  fixes m n :: int
  assumes "m \<le> n"
  shows "(enabled (basicPriceTracking (capabilities_UploadPage m))
          \<longrightarrow> enabled (basicPriceTracking (capabilities_UploadPage n)))
    \<and> (enabled (volumeAnalysis (capabilities_UploadPage m))
          \<longrightarrow> enabled (volumeAnalysis (capabilities_UploadPage n)))
    \<and> (enabled (zScoreCalculation (capabilities_UploadPage m))
          \<longrightarrow> enabled (zScoreCalculation (capabilities_UploadPage n)))
    \<and> (enabled (volatilityMetrics (capabilities_UploadPage m))
          \<longrightarrow> enabled (volatilityMetrics (capabilities_UploadPage n)))
    \<and> (enabled (correlationAnalysis (capabilities_UploadPage m))
          \<longrightarrow> enabled (correlationAnalysis (capabilities_UploadPage n)))
    \<and> (enabled (spreadTrading (capabilities_UploadPage m))
          \<longrightarrow> enabled (spreadTrading (capabilities_UploadPage n)))
    \<and> (enabled (hedgeRatioCalc (capabilities_UploadPage m))
          \<longrightarrow> enabled (hedgeRatioCalc (capabilities_UploadPage n)))
    \<and> (enabled (adfStationarity (capabilities_UploadPage m))
          \<longrightarrow> enabled (adfStationarity (capabilities_UploadPage n)))
    \<and> (enabled (fullHistoricalCharts (capabilities_UploadPage m))
          \<longrightarrow> enabled (fullHistoricalCharts (capabilities_UploadPage n)))
    \<and> (w_enabled (basicPriceTracking (capabilities_OHLCUploadWidget m))
          \<longrightarrow> w_enabled (basicPriceTracking (capabilities_OHLCUploadWidget n)))
    \<and> (w_enabled (volumeAnalysis (capabilities_OHLCUploadWidget m))
          \<longrightarrow> w_enabled (volumeAnalysis (capabilities_OHLCUploadWidget n)))
    \<and> (w_enabled (zScoreCalculation (capabilities_OHLCUploadWidget m))
          \<longrightarrow> w_enabled (zScoreCalculation (capabilities_OHLCUploadWidget n)))
    \<and> (w_enabled (volatilityMetrics (capabilities_OHLCUploadWidget m))
          \<longrightarrow> w_enabled (volatilityMetrics (capabilities_OHLCUploadWidget n)))
    \<and> (w_enabled (correlationAnalysis (capabilities_OHLCUploadWidget m))
          \<longrightarrow> w_enabled (correlationAnalysis (capabilities_OHLCUploadWidget n)))
    \<and> (w_enabled (spreadTrading (capabilities_OHLCUploadWidget m))
          \<longrightarrow> w_enabled (spreadTrading (capabilities_OHLCUploadWidget n)))
    \<and> (w_enabled (hedgeRatioCalc (capabilities_OHLCUploadWidget m))
          \<longrightarrow> w_enabled (hedgeRatioCalc (capabilities_OHLCUploadWidget n)))
    \<and> (w_enabled (adfStationarity (capabilities_OHLCUploadWidget m))
          \<longrightarrow> w_enabled (adfStationarity (capabilities_OHLCUploadWidget n)))
    \<and> (w_enabled (fullHistoricalCharts (capabilities_OHLCUploadWidget m))
          \<longrightarrow> w_enabled (fullHistoricalCharts (capabilities_OHLCUploadWidget n)))
    \<and> (200 \<le> n \<longrightarrow>
          list_all enabled
            [basicPriceTracking (capabilities_UploadPage n), volumeAnalysis (capabilities_UploadPage n),
             zScoreCalculation (capabilities_UploadPage n), volatilityMetrics (capabilities_UploadPage n),
             correlationAnalysis (capabilities_UploadPage n), spreadTrading (capabilities_UploadPage n),
             hedgeRatioCalc (capabilities_UploadPage n), adfStationarity (capabilities_UploadPage n),
             fullHistoricalCharts (capabilities_UploadPage n)]
          \<and> list_all w_enabled
            [basicPriceTracking (capabilities_OHLCUploadWidget n),
             volumeAnalysis (capabilities_OHLCUploadWidget n),
             zScoreCalculation (capabilities_OHLCUploadWidget n),
             volatilityMetrics (capabilities_OHLCUploadWidget n),
             correlationAnalysis (capabilities_OHLCUploadWidget n),
             spreadTrading (capabilities_OHLCUploadWidget n),
             hedgeRatioCalc (capabilities_OHLCUploadWidget n),
             adfStationarity (capabilities_OHLCUploadWidget n),
             fullHistoricalCharts (capabilities_OHLCUploadWidget n)])
    \<and> \<not> list_ex enabled
            [basicPriceTracking (capabilities_UploadPage 0), volumeAnalysis (capabilities_UploadPage 0),
             zScoreCalculation (capabilities_UploadPage 0), volatilityMetrics (capabilities_UploadPage 0),
             correlationAnalysis (capabilities_UploadPage 0), spreadTrading (capabilities_UploadPage 0),
             hedgeRatioCalc (capabilities_UploadPage 0), adfStationarity (capabilities_UploadPage 0),
             fullHistoricalCharts (capabilities_UploadPage 0)]
    \<and> \<not> list_ex w_enabled
            [basicPriceTracking (capabilities_OHLCUploadWidget 0),
             volumeAnalysis (capabilities_OHLCUploadWidget 0),
             zScoreCalculation (capabilities_OHLCUploadWidget 0),
             volatilityMetrics (capabilities_OHLCUploadWidget 0),
             correlationAnalysis (capabilities_OHLCUploadWidget 0),
             spreadTrading (capabilities_OHLCUploadWidget 0),
             hedgeRatioCalc (capabilities_OHLCUploadWidget 0),
             adfStationarity (capabilities_OHLCUploadWidget 0),
             fullHistoricalCharts (capabilities_OHLCUploadWidget 0)]"
  using assms
  by (simp add: capabilities_UploadPage_def capabilities_OHLCUploadWidget_def)

theorem capability_gate_monotone_witness:
  "(120::int) \<le> 250
   \<and> enabled (correlationAnalysis (capabilities_UploadPage 120))
   \<and> enabled (correlationAnalysis (capabilities_UploadPage 250))
   \<and> \<not> enabled (adfStationarity (capabilities_UploadPage 120))
   \<and> enabled (adfStationarity (capabilities_UploadPage 250))
   \<and> w_enabled (adfStationarity (capabilities_OHLCUploadWidget 250))
   \<and> \<not> enabled (basicPriceTracking (capabilities_UploadPage 0))"
proof -
  have le: "(120::int) \<le> 250" by simp
  have at120: "enabled (correlationAnalysis (capabilities_UploadPage 120))"
    "\<not> enabled (adfStationarity (capabilities_UploadPage 120))"
    by (simp_all add: capabilities_UploadPage_def)
  from capability_gate_monotone [OF le] at120 le show ?thesis
    by simp
qed

section \<open>Theorems: triggered-alert history\<close>












section \<open>Theorems: deleting an alert\<close>

text \<open>
  C5. After a successful delete of an id, the alerts list is the original list without
  the entries that have this id: no entry with the id is left, every other entry is
  kept as it was, and the entries keep their order. The hook reports success; in
  \<^verbatim>\<open>AlertsManager.jsx\<close> the same holds once the response body parses.
\<close>

theorem deleteAlert_removes_id:
  assumes "response_ok res"
  shows "alerts (fst (deleteAlert alertId res st))
           = filter (\<lambda>alert. a_id alert \<noteq> alertId) (alerts st)
    \<and> snd (deleteAlert alertId res st) = Inr ()
    \<and> (body_parses res \<longrightarrow>
          alerts (deleteAlert_AlertsManager alertId res st)
            = filter (\<lambda>alert. a_id alert \<noteq> alertId) (alerts st))
    \<and> alertId \<notin> a_id ` set (alerts (fst (deleteAlert alertId res st)))
    \<and> set (alerts (fst (deleteAlert alertId res st)))
         = {alert \<in> set (alerts st). a_id alert \<noteq> alertId}
    \<and> subseq (alerts (fst (deleteAlert alertId res st))) (alerts st)
    \<and> (\<forall>other. other \<noteq> alertId \<longrightarrow>
          filter (\<lambda>alert. a_id alert = other) (alerts (fst (deleteAlert alertId res st)))
            = filter (\<lambda>alert. a_id alert = other) (alerts st))"
proof -
  from assms obtain r where res: "res = Response r" and ok: "r_ok r"
    by (cases res) (simp_all add: response_ok_def)
  have hook: "deleteAlert alertId res st
      = (st\<lparr> error := None, alerts := filter (\<lambda>alert. a_id alert \<noteq> alertId) (alerts st) \<rparr>, Inr ())"
    using res ok by (simp add: deleteAlert_def)
  have comp: "alerts (deleteAlert_AlertsManager alertId res st)
      = filter (\<lambda>alert. a_id alert \<noteq> alertId) (alerts st)" if "body_parses res"
    using that res ok
    by (cases "r_body r") (simp_all add: deleteAlert_AlertsManager_def body_parses_def)
  have others: "filter (\<lambda>alert. a_id alert = other) (filter (\<lambda>alert. a_id alert \<noteq> alertId) xs)
      = filter (\<lambda>alert. a_id alert = other) xs" if "other \<noteq> alertId" for other and xs :: "alert_rule list"
    using that by (induction xs) auto
  show ?thesis
    using comp others by (auto simp add: hook)
qed

theorem deleteAlert_removes_id_witness:
  "response_ok (Response \<lparr> r_ok = True, r_status = 200, r_statusText = ''OK'', r_body = JsonBody None \<rparr>)
   \<and> alerts (fst (deleteAlert (IdNum 1)
        (Response \<lparr> r_ok = True, r_status = 200, r_statusText = ''OK'', r_body = JsonBody None \<rparr>)
        \<lparr> alerts =
            [\<lparr> a_id = IdNum 1, a_name = ''BTC high'', a_symbol = ''BTCUSDT'',
               a_condition = ''price_above'', a_value = 70000 \<rparr>,
             \<lparr> a_id = IdNum 2, a_name = ''ETH z'', a_symbol = ''ETHUSDT'',
               a_condition = ''zscore_above'', a_value = 2 \<rparr>,
             \<lparr> a_id = IdStr ''1'', a_name = ''BTC low'', a_symbol = ''BTCUSDT'',
               a_condition = ''price_below'', a_value = 50000 \<rparr>],
           triggeredAlerts = ([] :: nat list), loading = False, error = None \<rparr>))
       = [\<lparr> a_id = IdNum 2, a_name = ''ETH z'', a_symbol = ''ETHUSDT'',
             a_condition = ''zscore_above'', a_value = 2 \<rparr>,
          \<lparr> a_id = IdStr ''1'', a_name = ''BTC low'', a_symbol = ''BTCUSDT'',
             a_condition = ''price_below'', a_value = 50000 \<rparr>]"
proof -
  let ?res = "Response \<lparr> r_ok = True, r_status = 200, r_statusText = ''OK'', r_body = JsonBody None \<rparr>"
  let ?st = "\<lparr> alerts =
            [\<lparr> a_id = IdNum 1, a_name = ''BTC high'', a_symbol = ''BTCUSDT'',
               a_condition = ''price_above'', a_value = 70000 \<rparr>,
             \<lparr> a_id = IdNum 2, a_name = ''ETH z'', a_symbol = ''ETHUSDT'',
               a_condition = ''zscore_above'', a_value = 2 \<rparr>,
             \<lparr> a_id = IdStr ''1'', a_name = ''BTC low'', a_symbol = ''BTCUSDT'',
               a_condition = ''price_below'', a_value = 50000 \<rparr>],
           triggeredAlerts = ([] :: nat list), loading = False, error = None \<rparr>"
  have ok: "response_ok ?res"
    by (simp add: response_ok_def)
  from deleteAlert_removes_id [OF ok, where alertId = "IdNum 1" and st = ?st]
  have "alerts (fst (deleteAlert (IdNum 1) ?res ?st))
      = filter (\<lambda>alert. a_id alert \<noteq> IdNum 1) (alerts ?st)"
    by (rule conjunct1)
  with ok show ?thesis
    by simp
qed

section \<open>Theorems: snapshot suppression\<close>

text \<open>
  C3, as stated, fails: with a stored snapshot, a new snapshot whose correlation changed
  (from 0 to 1 for the pair) while price, zscore and spread did not is suppressed; the
  stored snapshot is kept although the two correlation fields serialise differently.
\<close>

theorem updateAnalytics_correlation_counterexample:
  "updateAnalytics show_int
     (Some \<lparr> s_price = Some (JObj [(''BTCUSDT'', JNum 50000)]),
             s_zscore = Some (JObj [(''BTCUSDT'', JNum 1)]),
             s_spread = Some (JObj [(''BTCUSDT_ETHUSDT'', JNum 0)]),
             s_correlation = Some (JObj [(''BTCUSDT_ETHUSDT'', JNum 0)]),
             s_hedge_ratio = None, s_adf_test = None, s_timestamp = Some (JNum 1000) \<rparr>)
     (Some \<lparr> s_price = Some (JObj [(''BTCUSDT'', JNum 50000)]),
             s_zscore = Some (JObj [(''BTCUSDT'', JNum 1)]),
             s_spread = Some (JObj [(''BTCUSDT_ETHUSDT'', JNum 0)]),
             s_correlation = Some (JObj [(''BTCUSDT_ETHUSDT'', JNum 1)]),
             s_hedge_ratio = None, s_adf_test = None, s_timestamp = Some (JNum 2000) \<rparr>)
   = Inr (Some \<lparr> s_price = Some (JObj [(''BTCUSDT'', JNum 50000)]),
             s_zscore = Some (JObj [(''BTCUSDT'', JNum 1)]),
             s_spread = Some (JObj [(''BTCUSDT_ETHUSDT'', JNum 0)]),
             s_correlation = Some (JObj [(''BTCUSDT_ETHUSDT'', JNum 0)]),
             s_hedge_ratio = None, s_adf_test = None, s_timestamp = Some (JNum 1000) \<rparr>)
   \<and> stringify_field show_int (Some (JObj [(''BTCUSDT_ETHUSDT'', JNum 0)]))
       \<noteq> stringify_field show_int (Some (JObj [(''BTCUSDT_ETHUSDT'', JNum 1)]))"
  by (simp add: updateAnalytics_def stringify_field_def show_int_def digits.simps digit_char_def)

text \<open>
  C3, amended. With nothing stored the incoming snapshot is stored. With a snapshot
  stored, the result is the stored snapshot or the incoming one: the incoming snapshot
  replaces the stored one whenever the JSON text of its price, zscore or spread differs
  from the stored snapshot's, and it is suppressed (the stored one kept) exactly when
  these three texts are all equal; so a snapshot with the same price, zscore and spread
  is suppressed whatever its other fields are. Correlation is not consulted.
\<close>

theorem updateAnalytics_tracked_fields:
  "updateAnalytics shw None new = Inr new
   \<and> (updateAnalytics shw (Some p) (Some n) = Inr (Some p)
        \<or> updateAnalytics shw (Some p) (Some n) = Inr (Some n))
   \<and> (stringify_field shw (s_price p) \<noteq> stringify_field shw (s_price n)
        \<or> stringify_field shw (s_zscore p) \<noteq> stringify_field shw (s_zscore n)
        \<or> stringify_field shw (s_spread p) \<noteq> stringify_field shw (s_spread n)
      \<longrightarrow> updateAnalytics shw (Some p) (Some n) = Inr (Some n))
   \<and> (stringify_field shw (s_price p) = stringify_field shw (s_price n)
        \<and> stringify_field shw (s_zscore p) = stringify_field shw (s_zscore n)
        \<and> stringify_field shw (s_spread p) = stringify_field shw (s_spread n)
      \<longrightarrow> updateAnalytics shw (Some p) (Some n) = Inr (Some p))
   \<and> (s_price n = s_price p \<and> s_zscore n = s_zscore p \<and> s_spread n = s_spread p
      \<longrightarrow> updateAnalytics shw (Some p) (Some n) = Inr (Some p))"
  by (simp add: updateAnalytics_def)

theorem updateAnalytics_tracked_fields_witness:
  "stringify_field show_int (Some (JObj [(''BTCUSDT'', JNum 50000)]))
     \<noteq> stringify_field show_int (Some (JObj [(''BTCUSDT'', JNum 50010)]))
   \<and> updateAnalytics show_int
       (Some \<lparr> s_price = Some (JObj [(''BTCUSDT'', JNum 50000)]),
               s_zscore = Some (JObj [(''BTCUSDT'', JNum 1)]),
               s_spread = None, s_correlation = None,
               s_hedge_ratio = None, s_adf_test = None, s_timestamp = Some (JNum 1000) \<rparr>)
       (Some \<lparr> s_price = Some (JObj [(''BTCUSDT'', JNum 50010)]),
               s_zscore = Some (JObj [(''BTCUSDT'', JNum 1)]),
               s_spread = None, s_correlation = None,
               s_hedge_ratio = None, s_adf_test = None, s_timestamp = Some (JNum 2000) \<rparr>)
     = Inr (Some \<lparr> s_price = Some (JObj [(''BTCUSDT'', JNum 50010)]),
               s_zscore = Some (JObj [(''BTCUSDT'', JNum 1)]),
               s_spread = None, s_correlation = None,
               s_hedge_ratio = None, s_adf_test = None, s_timestamp = Some (JNum 2000) \<rparr>)
   \<and> updateAnalytics show_int
       (Some \<lparr> s_price = Some (JObj [(''BTCUSDT'', JNum 50000)]),
               s_zscore = Some (JObj [(''BTCUSDT'', JNum 1)]),
               s_spread = None, s_correlation = None,
               s_hedge_ratio = None, s_adf_test = None, s_timestamp = Some (JNum 1000) \<rparr>)
       (Some \<lparr> s_price = Some (JObj [(''BTCUSDT'', JNum 50000)]),
               s_zscore = Some (JObj [(''BTCUSDT'', JNum 1)]),
               s_spread = None, s_correlation = None,
               s_hedge_ratio = None, s_adf_test = None, s_timestamp = Some (JNum 2000) \<rparr>)
     = Inr (Some \<lparr> s_price = Some (JObj [(''BTCUSDT'', JNum 50000)]),
               s_zscore = Some (JObj [(''BTCUSDT'', JNum 1)]),
               s_spread = None, s_correlation = None,
               s_hedge_ratio = None, s_adf_test = None, s_timestamp = Some (JNum 1000) \<rparr>)"
proof -
  let ?p = "\<lparr> s_price = Some (JObj [(''BTCUSDT'', JNum (50000::int))]),
               s_zscore = Some (JObj [(''BTCUSDT'', JNum 1)]),
               s_spread = None, s_correlation = None,
               s_hedge_ratio = None, s_adf_test = None, s_timestamp = Some (JNum 1000) \<rparr>"
  let ?changed = "\<lparr> s_price = Some (JObj [(''BTCUSDT'', JNum (50010::int))]),
               s_zscore = Some (JObj [(''BTCUSDT'', JNum 1)]),
               s_spread = None, s_correlation = None,
               s_hedge_ratio = None, s_adf_test = None, s_timestamp = Some (JNum 2000) \<rparr>"
  let ?same = "\<lparr> s_price = Some (JObj [(''BTCUSDT'', JNum (50000::int))]),
               s_zscore = Some (JObj [(''BTCUSDT'', JNum 1)]),
               s_spread = None, s_correlation = None,
               s_hedge_ratio = None, s_adf_test = None, s_timestamp = Some (JNum 2000) \<rparr>"
  have differs: "stringify_field show_int (s_price ?p) \<noteq> stringify_field show_int (s_price ?changed)"
    by (simp add: stringify_field_def show_int_def digits.simps digit_char_def)
  have replaced: "updateAnalytics show_int (Some ?p) (Some ?changed) = Inr (Some ?changed)"
    using updateAnalytics_tracked_fields [of show_int "Some ?changed" ?p ?changed] differs
    by blast
  have kept: "updateAnalytics show_int (Some ?p) (Some ?same) = Inr (Some ?p)"
    using updateAnalytics_tracked_fields [of show_int "Some ?same" ?p ?same]
    by simp
  from differs replaced kept show ?thesis
    by simp
qed

section \<open>Theorems: rolling history\<close>

lemma distinct_adj_drop: "distinct_adj xs \<Longrightarrow> distinct_adj (drop n xs)"
proof -
  assume "distinct_adj xs"
  then have "distinct_adj (take n xs @ drop n xs)"
    by simp
  then show ?thesis
    by (rule distinct_adj_appendD2)
qed

lemma pushPoint_length: "length prev \<le> 100 \<Longrightarrow> length (pushPoint ts v now prev) \<le> 100"
  by (simp add: pushPoint_def MAX_HISTORY_POINTS_def slice_last_def Let_def)

lemma pushPoint_distinct_adj:
  assumes "distinct_adj (map hp_timestamp prev)"
  shows "distinct_adj (map hp_timestamp (pushPoint ts v now prev))"
proof (cases "prev \<noteq> [] \<and> hp_timestamp (last prev) = ts")
  case True
  with assms show ?thesis
    by (simp add: pushPoint_def)
next
  case False
  let ?updated = "prev @ [\<lparr> hp_timestamp = ts, hp_value = v, hp_time = now \<rparr>]"
  from False assms have "distinct_adj (map hp_timestamp ?updated)"
    by (auto simp add: distinct_adj_append_iff last_map)
  then have "distinct_adj (map hp_timestamp (drop k ?updated))" for k
    unfolding drop_map [symmetric] by (rule distinct_adj_drop)
  with False \<open>distinct_adj (map hp_timestamp ?updated)\<close> assms show ?thesis
    by (simp add: pushPoint_def slice_last_def Let_def del: drop_append)
qed

lemma zscoreHistory_onmessage_cases:
  "zscoreHistory_onmessage fmt sel1 now data prev = prev
   \<or> (\<exists>z. zscoreHistory_onmessage fmt sel1 now data prev = pushPoint (fmt (s_timestamp data)) z now prev)"
  by (auto simp add: zscoreHistory_onmessage_def split: option.splits)

lemma spreadHistory_onmessage_cases:
  "spreadHistory_onmessage fmt sel1 sel2 now data prev = prev
   \<or> (\<exists>z. spreadHistory_onmessage fmt sel1 sel2 now data prev = pushPoint (fmt (s_timestamp data)) z now prev)"
  by (auto simp add: spreadHistory_onmessage_def Let_def split: option.splits)

lemma zscoreHistory_run_invariant:
  "length (zscoreHistory_run fmt sel1 msgs []) \<le> 100
   \<and> distinct_adj (map hp_timestamp (zscoreHistory_run fmt sel1 msgs []))"
proof (induction msgs rule: rev_induct)
  case Nil
  show ?case by (simp add: zscoreHistory_run_def)
next
  case (snoc m msgs)
  obtain now data where m: "m = (now, data)"
    by (cases m)
  let ?h = "zscoreHistory_run fmt sel1 msgs []"
  have step: "zscoreHistory_run fmt sel1 (msgs @ [m]) [] = zscoreHistory_onmessage fmt sel1 now data ?h"
    by (simp add: zscoreHistory_run_def m)
  from zscoreHistory_onmessage_cases [of fmt sel1 now data ?h] snoc show ?case
    unfolding step by (auto intro: pushPoint_length pushPoint_distinct_adj)
qed

text \<open>
  C4, as stated, fails: after a point with timestamp 5000 ms (formatted 00:00:05) is
  stored, a message with the earlier timestamp 3000 ms (formatted 00:00:03) is not
  rejected; its point is appended behind the later one.
\<close>

theorem zscoreHistory_order_counterexample:
  "zscoreHistory_run utcTimeString ''BTCUSDT''
     [(6000, \<lparr> s_price = None, s_zscore = Some (JObj [(''BTCUSDT'', JNum 1)]), s_spread = None,
                s_correlation = None, s_hedge_ratio = None, s_adf_test = None,
                s_timestamp = Some (JNum 5000) \<rparr>),
      (7000, \<lparr> s_price = None, s_zscore = Some (JObj [(''BTCUSDT'', JNum 2)]), s_spread = None,
                s_correlation = None, s_hedge_ratio = None, s_adf_test = None,
                s_timestamp = Some (JNum 3000) \<rparr>)]
     []
   = [\<lparr> hp_timestamp = ''00:00:05'', hp_value = JNum 1, hp_time = 6000 \<rparr>,
      \<lparr> hp_timestamp = ''00:00:03'', hp_value = JNum 2, hp_time = 7000 \<rparr>]"
  by (simp add: zscoreHistory_run_def zscoreHistory_onmessage_def optional_member_def
      pushPoint_def MAX_HISTORY_POINTS_def utcTimeString_def two_digits_def digit_char_def Let_def)

text \<open>
  C4, amended. An insertion is rejected, the history left unchanged, exactly when the
  new point's formatted timestamp equals the formatted timestamp of the latest stored
  point. Any other point is appended at the end, whatever its timestamp, and the history
  is then cut to its last 100 points. So an insertion keeps a history of at most 100
  points within 100 points and keeps adjacent points' timestamps distinct; each of the
  two message handlers either leaves its history unchanged or makes such an insertion,
  and the z-score history built from the stream has both properties.
\<close>

theorem history_insertion_dedup:
  "(prev \<noteq> [] \<and> hp_timestamp (last prev) = ts \<longrightarrow> pushPoint ts v now prev = prev)
   \<and> (prev = [] \<or> hp_timestamp (last prev) \<noteq> ts \<longrightarrow>
        pushPoint ts v now prev
          = slice_last 100 (prev @ [\<lparr> hp_timestamp = ts, hp_value = v, hp_time = now \<rparr>])
        \<and> last (pushPoint ts v now prev) = \<lparr> hp_timestamp = ts, hp_value = v, hp_time = now \<rparr>)
   \<and> (length prev \<le> 100 \<longrightarrow> length (pushPoint ts v now prev) \<le> 100)
   \<and> (distinct_adj (map hp_timestamp prev)
        \<longrightarrow> distinct_adj (map hp_timestamp (pushPoint ts v now prev)))
   \<and> (zscoreHistory_onmessage fmt sel1 now data prev = prev
        \<or> (\<exists>z. zscoreHistory_onmessage fmt sel1 now data prev
                 = pushPoint (fmt (s_timestamp data)) z now prev))
   \<and> (spreadHistory_onmessage fmt sel1 sel2 now data prev = prev
        \<or> (\<exists>z. spreadHistory_onmessage fmt sel1 sel2 now data prev
                 = pushPoint (fmt (s_timestamp data)) z now prev))
   \<and> length (zscoreHistory_run fmt sel1 msgs []) \<le> 100
   \<and> distinct_adj (map hp_timestamp (zscoreHistory_run fmt sel1 msgs []))"
proof -
  have rejected: "pushPoint ts v now prev = prev"
    if "prev \<noteq> [] \<and> hp_timestamp (last prev) = ts"
    using that by (simp add: pushPoint_def)
  have appended: "pushPoint ts v now prev
          = slice_last 100 (prev @ [\<lparr> hp_timestamp = ts, hp_value = v, hp_time = now \<rparr>])
        \<and> last (pushPoint ts v now prev) = \<lparr> hp_timestamp = ts, hp_value = v, hp_time = now \<rparr>"
    if "prev = [] \<or> hp_timestamp (last prev) \<noteq> ts"
  proof -
    let ?updated = "prev @ [\<lparr> hp_timestamp = ts, hp_value = v, hp_time = now \<rparr>]"
    have eq: "pushPoint ts v now prev = slice_last 100 ?updated"
      using that by (auto simp add: pushPoint_def MAX_HISTORY_POINTS_def slice_last_def Let_def)
    have "last (slice_last 100 ?updated) = last ?updated"
      unfolding slice_last_def by (rule last_drop) simp
    with eq show ?thesis
      by simp
  qed
  from rejected appended pushPoint_length [of prev ts v now]
    pushPoint_distinct_adj [of prev ts v now]
    zscoreHistory_onmessage_cases [of fmt sel1 now data prev]
    spreadHistory_onmessage_cases [of fmt sel1 sel2 now data prev]
    zscoreHistory_run_invariant [of fmt sel1 msgs]
  show ?thesis
    by blast
qed

theorem history_insertion_dedup_witness:
  "pushPoint ''00:00:05'' (JNum (2::int)) 7000
     [\<lparr> hp_timestamp = ''00:00:05'', hp_value = JNum 1, hp_time = 6000 \<rparr>]
     = [\<lparr> hp_timestamp = ''00:00:05'', hp_value = JNum 1, hp_time = 6000 \<rparr>]
   \<and> pushPoint ''00:00:03'' (JNum (2::int)) 7000
     [\<lparr> hp_timestamp = ''00:00:05'', hp_value = JNum 1, hp_time = 6000 \<rparr>]
     = [\<lparr> hp_timestamp = ''00:00:05'', hp_value = JNum 1, hp_time = 6000 \<rparr>,
        \<lparr> hp_timestamp = ''00:00:03'', hp_value = JNum 2, hp_time = 7000 \<rparr>]
   \<and> length (pushPoint ''00:00:03'' (JNum (2::int)) 7000
        [\<lparr> hp_timestamp = ''00:00:05'', hp_value = JNum 1, hp_time = 6000 \<rparr>]) \<le> 100
   \<and> distinct_adj (map hp_timestamp (pushPoint ''00:00:03'' (JNum (2::int)) 7000
        [\<lparr> hp_timestamp = ''00:00:05'', hp_value = JNum 1, hp_time = 6000 \<rparr>]))"
proof -
  let ?prev = "[\<lparr> hp_timestamp = ''00:00:05'', hp_value = JNum (1::int), hp_time = 6000 \<rparr>]"
  let ?data = "\<lparr> s_price = None, s_zscore = None, s_spread = None, s_correlation = None,
      s_hedge_ratio = None, s_adf_test = None, s_timestamp = Some (JNum (3000::int)) \<rparr>"
  note same = history_insertion_dedup [where prev = ?prev and ts = "''00:00:05''" and v = "JNum 2"
        and now = 7000 and msgs = "[]" and fmt = utcTimeString and data = ?data
        and ?sel1.0 = "''BTCUSDT''" and ?sel2.0 = "''ETHUSDT''"]
  note other = history_insertion_dedup [where prev = ?prev and ts = "''00:00:03''" and v = "JNum 2"
        and now = 7000 and msgs = "[]" and fmt = utcTimeString and data = ?data
        and ?sel1.0 = "''BTCUSDT''" and ?sel2.0 = "''ETHUSDT''"]
  have h1: "?prev \<noteq> [] \<and> hp_timestamp (last ?prev) = ''00:00:05''"
    and h2: "?prev = [] \<or> hp_timestamp (last ?prev) \<noteq> ''00:00:03''"
    and h3: "length ?prev \<le> 100"
    and h4: "distinct_adj (map hp_timestamp ?prev)"
    by simp_all
  have rejected: "pushPoint ''00:00:05'' (JNum 2) 7000 ?prev = ?prev"
    using same h1 by blast
  have appended: "pushPoint ''00:00:03'' (JNum 2) 7000 ?prev
      = slice_last 100 (?prev @ [\<lparr> hp_timestamp = ''00:00:03'', hp_value = JNum 2, hp_time = 7000 \<rparr>])"
    using other h2 by blast
  have bound: "length (pushPoint ''00:00:03'' (JNum 2) 7000 ?prev) \<le> 100"
    using other h3 by blast
  have adj: "distinct_adj (map hp_timestamp (pushPoint ''00:00:03'' (JNum 2) 7000 ?prev))"
    using other h4 by blast
  have cut: "slice_last 100 (?prev @ [\<lparr> hp_timestamp = ''00:00:03'', hp_value = JNum 2, hp_time = 7000 \<rparr>])
      = [\<lparr> hp_timestamp = ''00:00:05'', hp_value = JNum 1, hp_time = 6000 \<rparr>,
         \<lparr> hp_timestamp = ''00:00:03'', hp_value = JNum 2, hp_time = 7000 \<rparr>]"
    by (simp add: slice_last_def)
  from appended cut have both: "pushPoint ''00:00:03'' (JNum 2) 7000 ?prev
      = [\<lparr> hp_timestamp = ''00:00:05'', hp_value = JNum 1, hp_time = 6000 \<rparr>,
         \<lparr> hp_timestamp = ''00:00:03'', hp_value = JNum 2, hp_time = 7000 \<rparr>]"
    by (rule trans)
  from rejected both bound adj show ?thesis
    by (intro conjI)
qed

section \<open>Theorems: alert creation form\<close>

lemma option_value_conditions: "option_value opt \<in> conditions"
  by (cases opt) (simp_all add: conditions_def)

lemma form_step_condition:
  "fd_condition fd \<in> conditions \<Longrightarrow> fd_condition (form_step fd e) \<in> conditions"
  by (cases e) (simp_all add: option_value_conditions, simp add: conditions_def)

lemma form_after_condition: "fd_condition (form_after events) \<in> conditions"
proof (induction events rule: rev_induct)
  case Nil
  show ?case by (simp add: form_after_def initial_formData_def conditions_def)
next
  case (snoc e events)
  then show ?case
    by (simp add: form_after_def form_step_condition)
qed

text \<open>
  C7. Whatever the sequence of openings and input changes, a request the form sends
  carries one of the four conditions, the form's symbol, which is not empty, and as
  value the number its threshold text parses to. A submission whose threshold text
  parses to NaN, or whose symbol is empty, is rejected with a message and no request;
  every other submission sends the request.
\<close>

theorem handleSubmit_requests:
  "(handleSubmit parseFloat (form_after events) = Sent rq \<longrightarrow>
      rq_condition rq \<in> conditions
      \<and> rq_condition rq = fd_condition (form_after events)
      \<and> parseFloat (fd_value (form_after events)) = Some (rq_value rq)
      \<and> rq_symbol rq = fd_symbol (form_after events)
      \<and> rq_symbol rq \<noteq> []
      \<and> rq_name rq = fd_name (form_after events))
   \<and> (parseFloat (fd_value fd) = None \<or> fd_symbol fd = [] \<longrightarrow>
        (\<exists>message. handleSubmit parseFloat fd = Rejected message))
   \<and> (parseFloat (fd_value fd) \<noteq> None \<and> fd_symbol fd \<noteq> [] \<longrightarrow>
        (\<exists>request. handleSubmit parseFloat fd = Sent request))"
proof -
  have sent: "rq_condition rq \<in> conditions
      \<and> rq_condition rq = fd_condition (form_after events)
      \<and> parseFloat (fd_value (form_after events)) = Some (rq_value rq)
      \<and> rq_symbol rq = fd_symbol (form_after events)
      \<and> rq_symbol rq \<noteq> []
      \<and> rq_name rq = fd_name (form_after events)"
    if "handleSubmit parseFloat (form_after events) = Sent rq"
    using that form_after_condition [of events]
    by (auto simp add: handleSubmit_def split: option.splits if_splits)
  have rejected: "\<exists>message. handleSubmit parseFloat fd = Rejected message"
    if "parseFloat (fd_value fd) = None \<or> fd_symbol fd = []"
    using that by (auto simp add: handleSubmit_def split: option.splits)
  have accepted: "\<exists>request. handleSubmit parseFloat fd = Sent request"
    if "parseFloat (fd_value fd) \<noteq> None \<and> fd_symbol fd \<noteq> []"
    using that by (auto simp add: handleSubmit_def split: option.splits)
  from sent rejected accepted show ?thesis
    by blast
qed

theorem handleSubmit_requests_witness:
  "handleSubmit (\<lambda>text. if text = ''2.5'' then Some (5 / 2 :: rat) else None)
     (form_after [Opened ''BTCUSDT'', ConditionChanged Price_below, ValueChanged ''2.5''])
     = Sent \<lparr> rq_name = ''BTCUSDT Alert'', rq_condition = ''price_below'',
              rq_symbol = ''BTCUSDT'', rq_value = 5 / 2 \<rparr>
   \<and> ''price_below'' \<in> conditions
   \<and> (\<exists>message. handleSubmit (\<lambda>text. if text = ''2.5'' then Some (5 / 2 :: rat) else None)
         (form_after [Opened ''BTCUSDT'', ValueChanged ''abc'']) = Rejected message)
   \<and> (\<exists>message. handleSubmit (\<lambda>text. if text = ''2.5'' then Some (5 / 2 :: rat) else None)
         (form_after [Opened [], ValueChanged ''2.5'']) = Rejected message)"
proof -
  let ?parse = "\<lambda>text. if text = ''2.5'' then Some (5 / 2 :: rat) else None"
  let ?good = "form_after [Opened ''BTCUSDT'', ConditionChanged Price_below, ValueChanged ''2.5'']"
  let ?nan = "form_after [Opened ''BTCUSDT'', ValueChanged ''abc'']"
  let ?nosym = "form_after [Opened [], ValueChanged ''2.5'']"
  let ?rq = "\<lparr> rq_name = ''BTCUSDT Alert'', rq_condition = ''price_below'',
              rq_symbol = ''BTCUSDT'', rq_value = (5 / 2 :: rat) \<rparr>"
  have good: "handleSubmit ?parse ?good = Sent ?rq"
    by (simp add: handleSubmit_def form_after_def initial_formData_def)
  have nan: "?parse (fd_value ?nan) = None \<or> fd_symbol ?nan = []"
    by (simp add: form_after_def initial_formData_def)
  have nosym: "?parse (fd_value ?nosym) = None \<or> fd_symbol ?nosym = []"
    by (simp add: form_after_def initial_formData_def)
  from handleSubmit_requests
    [where parseFloat = ?parse and rq = ?rq and fd = ?nan
       and events = "[Opened ''BTCUSDT'', ConditionChanged Price_below, ValueChanged ''2.5'']"]
    good nan
  have c1: "rq_condition ?rq \<in> conditions"
    and c2: "\<exists>message. handleSubmit ?parse ?nan = Rejected message"
    by blast+
  from handleSubmit_requests
    [where parseFloat = ?parse and rq = ?rq and fd = ?nosym
       and events = "[Opened ''BTCUSDT'', ConditionChanged Price_below, ValueChanged ''2.5'']"]
    nosym
  have c3: "\<exists>message. handleSubmit ?parse ?nosym = Rejected message"
    by blast
  from c1 have c1': "''price_below'' \<in> conditions"
    by simp
  from good c1' c2 c3 show ?thesis
    by (intro conjI)
qed

section \<open>Theorems: rolling z-score\<close>




section \<open>Theorems: chart data\<close>

lemma map_items_Obj:
  "map_items (format_item pf ftime fdate) i (map Obj its)
     = Inr (map (\<lambda>(k, it). format_object pf ftime fdate it k) (enumerate i its))"
  by (induction its arbitrary: i) (simp_all add: format_item_def)

lemma format_object_index: "cp_originalIndex (format_object pf ftime fdate it k) = k"
  by (simp add: format_object_def Let_def)

lemma formatted_index:
  "map cp_originalIndex (map (\<lambda>(k, it). format_object pf ftime fdate it k) (enumerate i its))
     = [i..<i + length its]"
proof -
  have "map cp_originalIndex (map (\<lambda>(k, it). format_object pf ftime fdate it k) (enumerate i its))
      = map fst (enumerate i its)"
    by (simp add: format_object_index case_prod_unfold comp_def)
  then show ?thesis
    by simp
qed

lemma formatted_member:
  assumes "p \<in> set (map (\<lambda>(k, it). format_object pf ftime fdate it k) (enumerate 0 its))"
  shows "cp_originalIndex p < length its
    \<and> p = format_object pf ftime fdate (its ! cp_originalIndex p) (cp_originalIndex p)"
proof -
  from assms obtain k it where mem: "(k, it) \<in> set (enumerate 0 its)"
    and p: "p = format_object pf ftime fdate it k"
    by auto
  from mem have "k < length its" and "it = its ! k"
    by (auto simp add: in_set_enumerate_eq)
  moreover from p have "cp_originalIndex p = k"
    by (simp add: format_object_index)
  ultimately show ?thesis
    using p by simp
qed

text \<open>
  C9, as stated, fails: the function is not total on every input. On a non-empty array
  with a \<^verbatim>\<open>null\<close> element the callback's read of \<^verbatim>\<open>item.timestamp\<close> raises a TypeError,
  and no list is returned.
\<close>

theorem formatChartData_null_counterexample:
  "formatChartData (\<lambda>text. if text = ''101.5'' then Some (203 / 2) else None)
     (\<lambda>t. case t of None \<Rightarrow> ''Invalid Date'' | Some ms \<Rightarrow> ''22:13:20'')
     (\<lambda>t. case t of None \<Rightarrow> ''Invalid Date'' | Some ms \<Rightarrow> ''14/11/2023, 22:13:20'')
     (Array [Obj \<lparr> i_timestamp = Some 1700000000000, i_price = ''101.5'', i_volume = ''3'' \<rparr>,
             Nullish])
   = Inl TypeError"
  by (simp add: formatChartData_def format_item_def)

text \<open>
  C9, amended. On an input that is not an array, and on the empty array, the result is
  the empty list. On an array whose elements are all objects the function returns a
  list: the last (at most) 50 of the formatted points with a positive price. So the
  result has at most 50 entries, each with a positive price, each the formatted point
  of the input element at its \<open>originalIndex\<close>, and the entries are in the order of the
  input (their indices increase).
\<close>

theorem formatChartData_bounded:
  "formatChartData pf ftime fdate NotArray = Inr []
   \<and> formatChartData pf ftime fdate (Array []) = Inr []
   \<and> (\<exists>out. formatChartData pf ftime fdate (Array (map Obj its)) = Inr out
        \<and> out = slice_last 50 (filter (\<lambda>p. cp_price p > 0)
                  (map (\<lambda>(k, it). format_object pf ftime fdate it k) (enumerate 0 its)))
        \<and> length out \<le> 50
        \<and> (\<forall>p \<in> set out. cp_price p > 0
              \<and> cp_originalIndex p < length its
              \<and> p = format_object pf ftime fdate (its ! cp_originalIndex p) (cp_originalIndex p))
        \<and> sorted_wrt (<) (map cp_originalIndex out))"
proof -
  let ?all = "map (\<lambda>(k, it). format_object pf ftime fdate it k) (enumerate 0 its)"
  let ?out = "slice_last 50 (filter (\<lambda>p. cp_price p > 0) ?all)"
  have result: "formatChartData pf ftime fdate (Array (map Obj its)) = Inr ?out"
    by (cases "its = []") (simp_all add: formatChartData_def map_items_Obj slice_last_def)
  have len: "length ?out \<le> 50"
    by (simp add: slice_last_def)
  have sub: "set ?out \<subseteq> set (filter (\<lambda>p. cp_price p > 0) ?all)"
    unfolding slice_last_def by (rule set_drop_subset)
  have members: "cp_price p > 0 \<and> cp_originalIndex p < length its
      \<and> p = format_object pf ftime fdate (its ! cp_originalIndex p) (cp_originalIndex p)"
    if "p \<in> set ?out" for p
  proof -
    from that sub have "p \<in> set (filter (\<lambda>p. cp_price p > 0) ?all)"
      by blast
    then have "cp_price p > 0" and "p \<in> set ?all"
      by simp_all
    with formatted_member [of p pf ftime fdate its] show ?thesis
      by simp
  qed
  have "sorted_wrt (<) (map cp_originalIndex ?all)"
    unfolding formatted_index by simp
  then have "sorted_wrt (\<lambda>p q. cp_originalIndex p < cp_originalIndex q) ?all"
    by (simp only: sorted_wrt_map)
  then have "sorted_wrt (\<lambda>p q. cp_originalIndex p < cp_originalIndex q)
      (filter (\<lambda>p. cp_price p > 0) ?all)"
    by (rule sorted_wrt_filter)
  then have "sorted_wrt (\<lambda>p q. cp_originalIndex p < cp_originalIndex q) ?out"
    unfolding slice_last_def by (rule sorted_wrt_drop)
  then have order: "sorted_wrt (<) (map cp_originalIndex ?out)"
    by (simp only: sorted_wrt_map)
  have first: "formatChartData pf ftime fdate NotArray = Inr []"
    "formatChartData pf ftime fdate (Array []) = Inr []"
    by (simp_all add: formatChartData_def)
  from first result len members order show ?thesis
    by blast
qed

theorem formatChartData_bounded_witness:
  "formatChartData (\<lambda>text. if text = ''101.5'' then Some (203 / 2) else if text = ''0'' then Some 0
        else if text = ''7'' then Some 7 else None)
     (\<lambda>t. case t of None \<Rightarrow> ''Invalid Date'' | Some ms \<Rightarrow> ''22:13:20'')
     (\<lambda>t. case t of None \<Rightarrow> ''Invalid Date'' | Some ms \<Rightarrow> ''14/11/2023, 22:13:20'')
     (Array (map Obj
       [\<lparr> i_timestamp = Some 1700000000000, i_price = ''101.5'', i_volume = ''7'' \<rparr>,
        \<lparr> i_timestamp = Some 1700000000, i_price = ''abc'', i_volume = ''7'' \<rparr>,
        \<lparr> i_timestamp = Some 1700000000, i_price = ''0'', i_volume = ''7'' \<rparr>,
        \<lparr> i_timestamp = None, i_price = ''7'', i_volume = ''x'' \<rparr>]))
   = Inr [\<lparr> cp_timestamp = ''22:13:20'', cp_fullTimestamp = ''14/11/2023, 22:13:20'',
            cp_price = 203 / 2, cp_volume = 7, cp_close = 203 / 2, cp_high = 203 / 2,
            cp_low = 203 / 2, cp_open = 203 / 2, cp_originalIndex = 0 \<rparr>,
          \<lparr> cp_timestamp = ''Invalid Date'', cp_fullTimestamp = ''Invalid Date'',
            cp_price = 7, cp_volume = 0, cp_close = 7, cp_high = 7,
            cp_low = 7, cp_open = 7, cp_originalIndex = 3 \<rparr>]"
proof -
  let ?pf = "\<lambda>text. if text = ''101.5'' then Some (203 / 2 :: real) else if text = ''0'' then Some 0
        else if text = ''7'' then Some 7 else None"
  let ?ftime = "\<lambda>t :: real option. case t of None \<Rightarrow> ''Invalid Date'' | Some ms \<Rightarrow> ''22:13:20''"
  let ?fdate = "\<lambda>t :: real option. case t of None \<Rightarrow> ''Invalid Date'' | Some ms \<Rightarrow> ''14/11/2023, 22:13:20''"
  let ?its = "[\<lparr> i_timestamp = Some 1700000000000, i_price = ''101.5'', i_volume = ''7'' \<rparr>,
        \<lparr> i_timestamp = Some 1700000000, i_price = ''abc'', i_volume = ''7'' \<rparr>,
        \<lparr> i_timestamp = Some 1700000000, i_price = ''0'', i_volume = ''7'' \<rparr>,
        \<lparr> i_timestamp = None, i_price = ''7'', i_volume = ''x'' \<rparr>]"
  from formatChartData_bounded [of ?pf ?ftime ?fdate ?its]
  have "formatChartData ?pf ?ftime ?fdate (Array (map Obj ?its))
      = Inr (slice_last 50 (filter (\<lambda>p. cp_price p > 0)
                  (map (\<lambda>(k, it). format_object ?pf ?ftime ?fdate it k) (enumerate 0 ?its))))"
    by blast
  then show ?thesis
    by (simp add: slice_last_def format_object_def parse_or_zero_def)
qed

end
